theory Spec2Isabelle
  imports Complex_Main "HOL-Library.Sublist" "HOL-Library.Multiset"
begin

section \<open>JavaScript numbers\<close>

text \<open>
  The calculation core of Acquisition-OS is TypeScript that computes on the JavaScript
  \<^verbatim>\<open>number\<close> type. A number is modelled as an exact rational, or one of the three special
  values \<^verbatim>\<open>NaN\<close>, \<^verbatim>\<open>Infinity\<close> and \<^verbatim>\<open>-Infinity\<close>. The special values follow IEEE 754
  (\<^verbatim>\<open>Infinity - Infinity\<close> is \<^verbatim>\<open>NaN\<close>, every comparison with \<^verbatim>\<open>NaN\<close> is false, \<^verbatim>\<open>NaN\<close> and
  \<^verbatim>\<open>0\<close> are falsy). Arithmetic on finite values is exact: the rounding and the overflow of
  binary64 are not modelled, and neither is the sign of zero (a zero divisor counts as
  \<^verbatim>\<open>+0\<close>).
\<close>

datatype jsnum = Num rat | NaN | PInf | NInf

instantiation jsnum :: "{zero, one, plus, minus, times, inverse, ord}"
begin

definition zero_jsnum :: jsnum where
  "zero_jsnum = Num 0"

definition one_jsnum :: jsnum where
  "one_jsnum = Num 1"

fun plus_jsnum :: "jsnum \<Rightarrow> jsnum \<Rightarrow> jsnum" where
  "plus_jsnum (Num a) (Num b) = Num (a + b)"
| "plus_jsnum NaN _ = NaN"
| "plus_jsnum _ NaN = NaN"
| "plus_jsnum PInf NInf = NaN"
| "plus_jsnum NInf PInf = NaN"
| "plus_jsnum PInf _ = PInf"
| "plus_jsnum _ PInf = PInf"
| "plus_jsnum NInf _ = NInf"
| "plus_jsnum _ NInf = NInf"

fun minus_jsnum :: "jsnum \<Rightarrow> jsnum \<Rightarrow> jsnum" where
  "minus_jsnum (Num a) (Num b) = Num (a - b)"
| "minus_jsnum NaN _ = NaN"
| "minus_jsnum _ NaN = NaN"
| "minus_jsnum PInf PInf = NaN"
| "minus_jsnum NInf NInf = NaN"
| "minus_jsnum PInf _ = PInf"
| "minus_jsnum _ NInf = PInf"
| "minus_jsnum NInf _ = NInf"
| "minus_jsnum _ PInf = NInf"

fun times_jsnum :: "jsnum \<Rightarrow> jsnum \<Rightarrow> jsnum" where
  "times_jsnum (Num a) (Num b) = Num (a * b)"
| "times_jsnum NaN _ = NaN"
| "times_jsnum _ NaN = NaN"
| "times_jsnum (Num a) PInf = (if a = 0 then NaN else if 0 < a then PInf else NInf)"
| "times_jsnum (Num a) NInf = (if a = 0 then NaN else if 0 < a then NInf else PInf)"
| "times_jsnum PInf (Num b) = (if b = 0 then NaN else if 0 < b then PInf else NInf)"
| "times_jsnum NInf (Num b) = (if b = 0 then NaN else if 0 < b then NInf else PInf)"
| "times_jsnum PInf PInf = PInf"
| "times_jsnum NInf NInf = PInf"
| "times_jsnum PInf NInf = NInf"
| "times_jsnum NInf PInf = NInf"

fun divide_jsnum :: "jsnum \<Rightarrow> jsnum \<Rightarrow> jsnum" where
  "divide_jsnum (Num a) (Num b) =
     (if b \<noteq> 0 then Num (a / b)
      else if a = 0 then NaN else if 0 < a then PInf else NInf)"
| "divide_jsnum NaN _ = NaN"
| "divide_jsnum _ NaN = NaN"
| "divide_jsnum (Num a) PInf = Num 0"
| "divide_jsnum (Num a) NInf = Num 0"
| "divide_jsnum PInf (Num b) = (if 0 \<le> b then PInf else NInf)"
| "divide_jsnum NInf (Num b) = (if 0 \<le> b then NInf else PInf)"
| "divide_jsnum PInf _ = NaN"
| "divide_jsnum NInf _ = NaN"

definition inverse_jsnum :: "jsnum \<Rightarrow> jsnum" where
  "inverse_jsnum x = divide (Num 1) x"

fun less_jsnum :: "jsnum \<Rightarrow> jsnum \<Rightarrow> bool" where
  "less_jsnum (Num a) (Num b) = (a < b)"
| "less_jsnum NaN _ = False"
| "less_jsnum _ NaN = False"
| "less_jsnum PInf _ = False"
| "less_jsnum _ NInf = False"
| "less_jsnum NInf _ = True"
| "less_jsnum _ PInf = True"

fun less_eq_jsnum :: "jsnum \<Rightarrow> jsnum \<Rightarrow> bool" where
  "less_eq_jsnum (Num a) (Num b) = (a \<le> b)"
| "less_eq_jsnum NaN _ = False"
| "less_eq_jsnum _ NaN = False"
| "less_eq_jsnum NInf _ = True"
| "less_eq_jsnum _ PInf = True"
| "less_eq_jsnum PInf _ = False"
| "less_eq_jsnum _ NInf = False"

instance ..

end

instance jsnum :: comm_monoid_add
proof
  fix x y z :: jsnum
  show "x + y = y + x"
    by (cases x; cases y; simp)
  show "x + y + z = x + (y + z)"
    by (cases x; cases y; cases z; simp)
  show "0 + x = x"
    unfolding zero_jsnum_def by (cases x; simp)
qed

text \<open>Truthiness of a number, and the idiom \<^verbatim>\<open>x || 0\<close> of the three parsers.\<close>

fun truthy :: "jsnum \<Rightarrow> bool" where
  "truthy (Num a) = (a \<noteq> 0)"
| "truthy NaN = False"
| "truthy PInf = True"
| "truthy NInf = True"

definition orElse :: "jsnum \<Rightarrow> jsnum \<Rightarrow> jsnum" where
  "orElse x d = (if truthy x then x else d)"


text \<open>\<^verbatim>\<open>Math.pow(b, e)\<close> for an integer exponent \<open>e\<close>, the only use the calculators make of it.\<close>

fun Math_pow :: "jsnum \<Rightarrow> int \<Rightarrow> jsnum" where
  "Math_pow (Num b) e =
     (if 0 \<le> e then Num (b ^ nat e)
      else if b = 0 then PInf else Num (1 / b ^ nat (- e)))"
| "Math_pow NaN e = (if e = 0 then Num 1 else NaN)"
| "Math_pow PInf e = (if e = 0 then Num 1 else if 0 < e then PInf else Num 0)"
| "Math_pow NInf e =
     (if e = 0 then Num 1 else if e < 0 then Num 0 else if even e then PInf else NInf)"

text \<open>\<^verbatim>\<open>Math.round\<close> of a finite number rounds halves up.\<close>

definition Math_round :: "rat \<Rightarrow> int" where
  "Math_round x = \<lfloor>x + 1 / 2\<rfloor>"

section \<open>Strings and the built-in parsers\<close>

text \<open>
  A string is a list of characters, each standing for a code unit below 256.
  \<^verbatim>\<open>isWhiteSpace\<close> is the white space and line terminators that \<^verbatim>\<open>trim\<close>, \<^verbatim>\<open>parseFloat\<close>,
  \<^verbatim>\<open>parseInt\<close> and \<^verbatim>\<open>Number\<close> skip: tab, line feed, vertical tab, form feed, carriage
  return, space and no-break space.
\<close>

definition isWhiteSpace :: "char \<Rightarrow> bool" where
  "isWhiteSpace c = ((of_char c :: nat) \<in> {9, 10, 11, 12, 13, 32, 160})"

definition isDigit :: "char \<Rightarrow> bool" where
  "isDigit c = (48 \<le> (of_char c :: nat) \<and> (of_char c :: nat) \<le> 57)"

text \<open>The value of a character as a digit of any radix up to 36; 36 for a non-digit.\<close>

definition digitValue :: "char \<Rightarrow> nat" where
  "digitValue c =
     (let n = (of_char c :: nat) in
      if 48 \<le> n \<and> n \<le> 57 then n - 48
      else if 97 \<le> n \<and> n \<le> 122 then n - 87
      else if 65 \<le> n \<and> n \<le> 90 then n - 55
      else 36)"

definition digitsValue :: "nat \<Rightarrow> string \<Rightarrow> int" where
  "digitsValue radix ds = foldl (\<lambda>acc c. acc * int radix + int (digitValue c)) 0 ds"

definition trimStart :: "string \<Rightarrow> string" where
  "trimStart s = dropWhile isWhiteSpace s"

definition trim :: "string \<Rightarrow> string" where
  "trim s = rev (dropWhile isWhiteSpace (rev (dropWhile isWhiteSpace s)))"

text \<open>An optional sign: whether it is a minus, and the text after it.\<close>

fun takeSign :: "string \<Rightarrow> bool \<times> string" where
  "takeSign [] = (False, [])"
| "takeSign (c # cs) =
     (if c = CHR ''-'' then (True, cs)
      else if c = CHR ''+'' then (False, cs)
      else (False, c # cs))"

text \<open>
  The exponent part of a decimal literal, \<^verbatim>\<open>e\<close> or \<^verbatim>\<open>E\<close>, an optional sign and at least
  one digit: its value and the text after it. Without a well-formed exponent part the
  exponent is 0 and nothing is consumed.
\<close>

definition scanExponent :: "string \<Rightarrow> int \<times> string" where
  "scanExponent s =
     (case s of
        [] \<Rightarrow> (0, s)
      | c # cs \<Rightarrow>
          if c = CHR ''e'' \<or> c = CHR ''E'' then
            (let (neg, r) = takeSign cs; ds = takeWhile isDigit r in
             if ds = [] then (0, s)
             else ((if neg then - digitsValue 10 ds else digitsValue 10 ds),
                   dropWhile isDigit r))
          else (0, s))"

definition scale10 :: "rat \<Rightarrow> int \<Rightarrow> rat" where
  "scale10 m e = (if 0 \<le> e then m * 10 ^ nat e else m / 10 ^ nat (- e))"

text \<open>
  The longest prefix of a string that is a \<^verbatim>\<open>StrDecimalLiteral\<close> of ECMAScript (an optional
  sign, then \<^verbatim>\<open>Infinity\<close>, or digits with an optional fraction and exponent): its value and
  the text after it, or \<open>None\<close> when no prefix is such a literal.
\<close>

definition scanDecimal :: "string \<Rightarrow> (jsnum \<times> string) option" where
  "scanDecimal s =
     (let (neg, u) = takeSign s in
      if prefix ''Infinity'' u then Some (if neg then NInf else PInf, drop 8 u)
      else
        let ip = takeWhile isDigit u;
            r1 = dropWhile isDigit u;
            (fp, r2) = (case r1 of
                          [] \<Rightarrow> ([], r1)
                        | c # cs \<Rightarrow>
                            if c = CHR ''.'' then (takeWhile isDigit cs, dropWhile isDigit cs)
                            else ([], r1))
        in if ip = [] \<and> fp = [] then None
           else
             let mant = of_int (digitsValue 10 ip)
                          + of_int (digitsValue 10 fp) / 10 ^ length fp;
                 (e, r3) = scanExponent r2;
                 v = scale10 mant e
             in Some (Num (if neg then - v else v), r3))"

text \<open>\<^verbatim>\<open>parseFloat(s)\<close>: skip leading white space, then the longest decimal literal.\<close>

definition parseFloat :: "string \<Rightarrow> jsnum" where
  "parseFloat s = (case scanDecimal (trimStart s) of None \<Rightarrow> NaN | Some (v, r) \<Rightarrow> v)"

text \<open>
  \<^verbatim>\<open>Number(s)\<close>: the whole trimmed string must be a numeric literal. The empty string is
  0; \<^verbatim>\<open>0x\<close>, \<^verbatim>\<open>0o\<close> and \<^verbatim>\<open>0b\<close> introduce an unsigned hexadecimal, octal or binary integer.
\<close>

definition radixLiteral :: "nat \<Rightarrow> string \<Rightarrow> jsnum" where
  "radixLiteral radix ds =
     (if ds \<noteq> [] \<and> (\<forall>c \<in> set ds. digitValue c < radix)
      then Num (of_int (digitsValue radix ds)) else NaN)"

definition Number_js :: "string \<Rightarrow> jsnum" where
  "Number_js s =
     (let t = trim s in
      if t = [] then Num 0
      else if take 2 t = ''0x'' \<or> take 2 t = ''0X'' then radixLiteral 16 (drop 2 t)
      else if take 2 t = ''0o'' \<or> take 2 t = ''0O'' then radixLiteral 8 (drop 2 t)
      else if take 2 t = ''0b'' \<or> take 2 t = ''0B'' then radixLiteral 2 (drop 2 t)
      else (case scanDecimal t of
              None \<Rightarrow> NaN
            | Some (v, r) \<Rightarrow> if r = [] then v else NaN))"

text \<open>
  \<^verbatim>\<open>parseInt(s, radix)\<close> for radix 10, and \<^verbatim>\<open>parseInt(s)\<close> (radix 0 here), which reads a
  \<^verbatim>\<open>0x\<close> prefix as hexadecimal. \<open>None\<close> is \<^verbatim>\<open>NaN\<close>.
\<close>

definition parseInt :: "string \<Rightarrow> nat \<Rightarrow> int option" where
  "parseInt s radix =
     (let (neg, u) = takeSign (trimStart s);
          hex = ((radix = 0 \<or> radix = 16) \<and> (take 2 u = ''0x'' \<or> take 2 u = ''0X''));
          r = (if hex then 16 else if radix = 0 then 10 else radix);
          body = (if hex then drop 2 u else u);
          ds = takeWhile (\<lambda>c. digitValue c < r) body
      in if ds = [] then None
         else Some (if neg then - digitsValue r ds else digitsValue r ds))"

section \<open>Numeric parsing of the three screens\<close>

text \<open>
  \<^verbatim>\<open>parseNum\<close> of the financial hub (FinancialAnalysisHub.tsx, line 176):
  \<^verbatim>\<open>parseFloat(String(val).replace(/,/g, '')) || 0\<close>.
\<close>

definition parseNum_hub :: "string \<Rightarrow> jsnum" where
  "parseNum_hub val = orElse (parseFloat (filter (\<lambda>c. c \<noteq> CHR '','') val)) (Num 0)"



text \<open>
  \<^verbatim>\<open>parseCurrency\<close> of the valuation calculator (part_004, lines 444-446):
  \<^verbatim>\<open>Number(value.replace(/[^0-9.]/g, '')) || 0\<close>.
\<close>

definition keepUnsigned :: "char \<Rightarrow> bool" where
  "keepUnsigned c = (isDigit c \<or> c = CHR ''.'')"

definition parseCurrency :: "string \<Rightarrow> jsnum" where
  "parseCurrency val = orElse (Number_js (filter keepUnsigned val)) (Num 0)"

section \<open>Financial normalization (FinancialAnalysisHub.tsx)\<close>

record FinancialPeriod =
  period_id :: string
  periodName :: string
  revenue :: string
  cogs :: string
  operatingExpenses :: string
  depreciation :: string
  amortization :: string
  interestExpense :: string
  taxes :: string
  cash :: string
  accountsReceivable :: string
  inventory :: string
  otherCurrentAssets :: string
  longTermAssets :: string
  accountsPayable :: string
  shortTermDebt :: string
  otherCurrentLiabilities :: string
  longTermDebt :: string
  shareholderEquity :: string

datatype AddBackCategory =
  OwnerDiscretionaryExpenses | NonRecurringExpenses | NonOperationalExpenses
  | AddBacksForStandardization | Personal | OneTime | Other

record AddBack =
  addback_id :: string
  description :: string
  amount :: string
  category :: AddBackCategory

record FinancialAnalysisData =
  companyName :: string
  periods :: "FinancialPeriod list"
  addBacks :: "AddBack list"
  ytdMonths :: string
  ytdActuals :: FinancialPeriod
  ownerCompAddBack :: string
  financialNotes :: string
  addBackNotes :: string

text \<open>The record that \<^verbatim>\<open>calculateMetrics\<close> returns; its fields carry the prefix \<open>m_\<close>.\<close>

record Metrics =
  m_id :: string
  m_periodName :: string
  m_revenue :: jsnum
  m_grossProfit :: jsnum
  m_ebitda :: jsnum
  m_netIncome :: jsnum
  m_normalizedEbitda :: jsnum
  m_normalizedSde :: jsnum
  m_netWorkingCapital :: jsnum
  m_totalAssets :: jsnum
  m_revenueGrowth :: jsnum
  m_grossMargin :: jsnum
  m_ebitdaMargin :: jsnum
  m_netMargin :: jsnum
  m_currentRatio :: jsnum
  m_quickRatio :: jsnum
  m_dso :: jsnum
  m_dpo :: jsnum

text \<open>
  Lines 575-580 of \<^verbatim>\<open>calculationResults\<close>. \<^verbatim>\<open>reduce\<close> runs from the left, starting at 0.
\<close>

definition generalAddBacks :: "FinancialAnalysisData \<Rightarrow> jsnum" where
  "generalAddBacks data = foldl (\<lambda>sum b. sum + parseNum_hub (amount b)) (Num 0) (addBacks data)"

definition ownerComp :: "FinancialAnalysisData \<Rightarrow> jsnum" where
  "ownerComp data = parseNum_hub (ownerCompAddBack data)"

definition totalAddBacks :: "FinancialAnalysisData \<Rightarrow> jsnum" where
  "totalAddBacks data = generalAddBacks data + ownerComp data"

text \<open>\<^verbatim>\<open>parseInt(data.ytdMonths) || 1\<close>: \<^verbatim>\<open>NaN\<close> and 0 become 1, a negative count stays.\<close>

definition ytdMonthsNum :: "FinancialAnalysisData \<Rightarrow> int" where
  "ytdMonthsNum data =
     (case parseInt (ytdMonths data) 0 of
        None \<Rightarrow> 1
      | Some n \<Rightarrow> if n = 0 then 1 else n)"

definition annualizationFactor :: "FinancialAnalysisData \<Rightarrow> jsnum" where
  "annualizationFactor data =
     (if 0 < ytdMonthsNum data \<and> ytdMonthsNum data < 12
      then Num 12 / Num (of_int (ytdMonthsNum data)) else Num 1)"

definition calculateMetrics ::
  "FinancialAnalysisData \<Rightarrow> FinancialPeriod \<Rightarrow> FinancialPeriod option \<Rightarrow> bool \<Rightarrow> Metrics" where
  "calculateMetrics data p prevPeriod isAnnualized =
     (let revenue' = (if isAnnualized then parseNum_hub (revenue p) * annualizationFactor data
                      else parseNum_hub (revenue p));
          cogs' = (if isAnnualized then parseNum_hub (cogs p) * annualizationFactor data
                   else parseNum_hub (cogs p));
          opEx = (if isAnnualized then parseNum_hub (operatingExpenses p) * annualizationFactor data
                  else parseNum_hub (operatingExpenses p));
          depr = parseNum_hub (depreciation p);
          amort = parseNum_hub (amortization p);
          interest = parseNum_hub (interestExpense p);
          taxes' = parseNum_hub (taxes p);
          cash' = parseNum_hub (cash p);
          ar = parseNum_hub (accountsReceivable p);
          inventory' = parseNum_hub (inventory p);
          otherCurrentAssets' = parseNum_hub (otherCurrentAssets p);
          longTermAssets' = parseNum_hub (longTermAssets p);
          ap = parseNum_hub (accountsPayable p);
          shortTermDebt' = parseNum_hub (shortTermDebt p);
          otherCurrentLiabilities' = parseNum_hub (otherCurrentLiabilities p);
          grossProfit = revenue' - cogs';
          ebitda = grossProfit - opEx;
          ebit = ebitda - depr - amort;
          netIncome = ebit - interest - taxes';
          normalizedEbitda = ebitda + totalAddBacks data - ownerComp data;
          normalizedSde = normalizedEbitda + ownerComp data;
          totalCurrentAssets = cash' + ar + inventory' + otherCurrentAssets';
          totalAssets = totalCurrentAssets + longTermAssets';
          totalCurrentLiabilities = ap + shortTermDebt' + otherCurrentLiabilities';
          netWorkingCapital = (ar + inventory' + otherCurrentAssets') - (ap + otherCurrentLiabilities');
          prevRevenue = (case prevPeriod of Some q \<Rightarrow> parseNum_hub (revenue q) | None \<Rightarrow> Num 0);
          revenueGrowth = (if truthy prevRevenue then (revenue' - prevRevenue) / prevRevenue else Num 0);
          grossMargin = (if truthy revenue' then grossProfit / revenue' else Num 0);
          ebitdaMargin = (if truthy revenue' then ebitda / revenue' else Num 0);
          netMargin = (if truthy revenue' then netIncome / revenue' else Num 0);
          currentRatio = (if truthy totalCurrentLiabilities
                          then totalCurrentAssets / totalCurrentLiabilities else Num 0);
          quickRatio = (if truthy totalCurrentLiabilities
                        then (cash' + ar) / totalCurrentLiabilities else Num 0);
          prevAR = (case prevPeriod of Some q \<Rightarrow> parseNum_hub (accountsReceivable q) | None \<Rightarrow> ar);
          avgAR = (ar + prevAR) / Num 2;
          dso = (if truthy revenue' then (avgAR / revenue') * Num 365 else Num 0);
          prevAP = (case prevPeriod of Some q \<Rightarrow> parseNum_hub (accountsPayable q) | None \<Rightarrow> ap);
          avgAP = (ap + prevAP) / Num 2;
          dpo = (if truthy cogs' then (avgAP / cogs') * Num 365 else Num 0)
      in \<lparr> m_id = period_id p, m_periodName = periodName p, m_revenue = revenue',
           m_grossProfit = grossProfit, m_ebitda = ebitda, m_netIncome = netIncome,
           m_normalizedEbitda = normalizedEbitda, m_normalizedSde = normalizedSde,
           m_netWorkingCapital = netWorkingCapital, m_totalAssets = totalAssets,
           m_revenueGrowth = revenueGrowth, m_grossMargin = grossMargin,
           m_ebitdaMargin = ebitdaMargin, m_netMargin = netMargin,
           m_currentRatio = currentRatio, m_quickRatio = quickRatio, m_dso = dso, m_dpo = dpo \<rparr>)"

text \<open>
  The synthetic annualized period (line 637); the calendar year of \<^verbatim>\<open>new Date()\<close> is a
  parameter, already printed as text.
\<close>

definition ytdAnnualizedPeriod :: "string \<Rightarrow> FinancialAnalysisData \<Rightarrow> FinancialPeriod" where
  "ytdAnnualizedPeriod year data =
     (ytdActuals data)\<lparr> periodName := year @ '' (Ann.)'', period_id := ''ytd-annualized'' \<rparr>"



section \<open>Deal structure and debt service (ValuationCalculator, part_004)\<close>

datatype NoteType = interestOnly | amortizing

record ValuationInputs =
  sde :: string
  askingMultiple :: string
  ownerSalary :: string
  closingCosts :: string
  liquidityMonths :: string
  loanAmount :: string
  sbaTerm :: string
  sbaRate :: string
  amortizingSellerNoteAmount :: string
  standbySellerNoteAmount :: string
  forgivableSellerNoteAmount :: string
  amortizingNoteTerm :: string
  amortizingNoteRate :: string
  amortizingNoteType :: NoteType
  stressTestPercent :: string
  standbyNoteRate :: string
  standbyNoteTerm :: string
  forgivenessPeriod :: string
  forgivenessCondition :: string

text \<open>\<^verbatim>\<open>ValuationErrors\<close>: four optional messages; the fields carry the prefix \<open>err_\<close>.\<close>

record ValuationErrors =
  err_loanAmount :: "string option"
  err_amortizingSellerNoteAmount :: "string option"
  err_standbySellerNoteAmount :: "string option"
  err_forgivableSellerNoteAmount :: "string option"

record ValuationResult =
  enterpriseValue :: jsnum
  buyerEquity :: jsnum
  sbaDebtService :: jsnum
  sellerNoteDebtService :: jsnum
  totalDebtService :: jsnum
  totalCashToClose :: jsnum
  dscr :: jsnum
  netCashFlowToOwner :: jsnum
  isDscrLow :: bool
  liquidityTarget :: jsnum
  validationErrors :: ValuationErrors
  totalSellerFinancing :: jsnum

text \<open>\<^verbatim>\<open>parseFloat(x) || 0\<close> and \<^verbatim>\<open>parseInt(x, 10) || 0\<close>, as lines 497-513 use them.\<close>

definition parseFloatOr0 :: "string \<Rightarrow> jsnum" where
  "parseFloatOr0 s = orElse (parseFloat s) (Num 0)"

definition parseIntOr0 :: "string \<Rightarrow> int" where
  "parseIntOr0 s = (case parseInt s 10 of None \<Rightarrow> 0 | Some n \<Rightarrow> n)"

text \<open>
  The payment of an amortizing loan as lines 531-534 and 544-547 compute it, from the
  principal, the monthly rate and the number of monthly payments.
\<close>

definition monthlyPayment :: "jsnum \<Rightarrow> jsnum \<Rightarrow> int \<Rightarrow> jsnum" where
  "monthlyPayment amount' monthlyRate numPayments =
     (if 0 < numPayments \<and> Num 0 < monthlyRate
      then (amount' * monthlyRate) / (Num 1 - Math_pow (Num 1 + monthlyRate) (- numPayments))
      else (if 0 < numPayments then amount' / Num (of_int numPayments) else Num 0))"

definition noErrors :: ValuationErrors where
  "noErrors = \<lparr> err_loanAmount = None, err_amortizingSellerNoteAmount = None,
                err_standbySellerNoteAmount = None, err_forgivableSellerNoteAmount = None \<rparr>"

text \<open>
  The body of the \<^verbatim>\<open>useMemo\<close> at lines 491-573; \<^verbatim>\<open>isAdvancedView\<close> and \<^verbatim>\<open>isStressed\<close> are
  the two switches of the component.
\<close>

definition calculations_valuation :: "ValuationInputs \<Rightarrow> bool \<Rightarrow> bool \<Rightarrow> ValuationResult" where
  "calculations_valuation inputs isAdvancedView isStressed =
     (let numSDE = parseCurrency (sde inputs);
          numAskingMultiple = parseFloatOr0 (askingMultiple inputs);
          numLoanAmount = parseCurrency (loanAmount inputs);
          numAmortizingSellerNote = parseCurrency (amortizingSellerNoteAmount inputs);
          numStandbySellerNote = parseCurrency (standbySellerNoteAmount inputs);
          numForgivableSellerNote = parseCurrency (forgivableSellerNoteAmount inputs);
          totalSellerFinancing' =
            numAmortizingSellerNote + numStandbySellerNote + numForgivableSellerNote;
          numOwnerSalary = parseCurrency (ownerSalary inputs);
          numClosingCosts = parseCurrency (closingCosts inputs);
          numLiquidityMonths = parseIntOr0 (liquidityMonths inputs);
          numSbaTerm = parseIntOr0 (sbaTerm inputs);
          numSbaRate = parseFloatOr0 (sbaRate inputs);
          numAmortizingNoteTerm = parseIntOr0 (amortizingNoteTerm inputs);
          numAmortizingNoteRate = parseFloatOr0 (amortizingNoteRate inputs);
          numStressTestPercent = parseFloatOr0 (stressTestPercent inputs);
          enterpriseValue' = numSDE * numAskingMultiple;
          buyerEquity' = enterpriseValue' - numLoanAmount - totalSellerFinancing';
          totalDebt = numLoanAmount + totalSellerFinancing';
          validationErrors' =
            (if enterpriseValue' < totalDebt
             then \<lparr> err_loanAmount = Some ''Total debt cannot exceed EV.'',
                    err_amortizingSellerNoteAmount = Some ''Total debt cannot exceed EV.'',
                    err_standbySellerNoteAmount = Some ''Total debt cannot exceed EV.'',
                    err_forgivableSellerNoteAmount = Some ''Total debt cannot exceed EV.'' \<rparr>
             else noErrors);
          monthlySbaRate = numSbaRate / Num 100 / Num 12;
          numSbaPayments = numSbaTerm * 12;
          monthlySbaPayment = monthlyPayment numLoanAmount monthlySbaRate numSbaPayments;
          sbaDebtService' =
            (if isAdvancedView then monthlySbaPayment * Num 12
             else numLoanAmount * Num (13 / 100));
          sellerNoteDebtService' =
            (if isAdvancedView then
               (if amortizingNoteType inputs = interestOnly
                then numAmortizingSellerNote * (numAmortizingNoteRate / Num 100)
                else monthlyPayment numAmortizingSellerNote
                       (numAmortizingNoteRate / Num 100 / Num 12) (numAmortizingNoteTerm * 12)
                     * Num 12)
             else numAmortizingSellerNote * Num (5 / 100));
          totalDebtService' = sbaDebtService' + sellerNoteDebtService';
          sdeForCalc = (if isStressed then numSDE * (Num 1 - numStressTestPercent / Num 100)
                        else numSDE);
          cashAvailableForDebt = sdeForCalc - numOwnerSalary;
          dscr' = (if Num 0 < totalDebtService' then cashAvailableForDebt / totalDebtService'
                   else Num 0);
          netCashFlowToOwner' = cashAvailableForDebt - totalDebtService';
          liquidityTarget' = (totalDebtService' / Num 12) * Num (of_int numLiquidityMonths);
          totalCashToClose' =
            buyerEquity' + numClosingCosts + (if isAdvancedView then liquidityTarget' else Num 0);
          dscrThreshold = (if isAdvancedView then Num (3 / 2) else Num (5 / 4))
      in \<lparr> enterpriseValue = enterpriseValue', buyerEquity = buyerEquity',
           sbaDebtService = sbaDebtService', sellerNoteDebtService = sellerNoteDebtService',
           totalDebtService = totalDebtService', totalCashToClose = totalCashToClose',
           dscr = dscr', netCashFlowToOwner = netCashFlowToOwner',
           isDscrLow = (dscr' < dscrThreshold), liquidityTarget = liquidityTarget',
           validationErrors = validationErrors', totalSellerFinancing = totalSellerFinancing' \<rparr>)"

text \<open>
  The monthly payment of the senior loan (\<^verbatim>\<open>monthlySbaPayment\<close>, lines 528-534), which the
  component computes in both modes before line 550 replaces the debt service in simple mode.
\<close>

definition monthlySbaPayment :: "ValuationInputs \<Rightarrow> jsnum" where
  "monthlySbaPayment inputs =
     monthlyPayment (parseCurrency (loanAmount inputs))
       (parseFloatOr0 (sbaRate inputs) / Num 100 / Num 12) (parseIntOr0 (sbaTerm inputs) * 12)"

section \<open>Year-1 projection (FinancialProjectionModeler.tsx)\<close>

datatype OpExMode = percentOfRevenue | fixedAmount









section \<open>Buy-box fit score (SourcingEngine in part_003, CentralDashboard.tsx)\<close>

subsection \<open>String operations\<close>

text \<open>\<^verbatim>\<open>s.split(c)\<close> for a one-character separator: always at least one piece.\<close>

fun split :: "char \<Rightarrow> string \<Rightarrow> string list" where
  "split c [] = [[]]"
| "split c (x # xs) =
     (if x = c then [] # split c xs
      else (case split c xs of
              [] \<Rightarrow> [[x]]
            | piece # pieces \<Rightarrow> (x # piece) # pieces))"

text \<open>\<^verbatim>\<open>s.split(sep)[0]\<close> for a non-empty separator: the text before its first occurrence.\<close>

fun firstPiece :: "string \<Rightarrow> string \<Rightarrow> string" where
  "firstPiece sep [] = []"
| "firstPiece sep (x # xs) = (if prefix sep (x # xs) then [] else x # firstPiece sep xs)"

text \<open>
  \<^verbatim>\<open>toLowerCase\<close> on the letters A to Z. The other characters are left as they are, and no
  character outside A to Z has a letter of \<^verbatim>\<open>yes\<close> as its lower case.
\<close>

definition lowerChar :: "char \<Rightarrow> char" where
  "lowerChar c =
     (case map_of (zip ''ABCDEFGHIJKLMNOPQRSTUVWXYZ'' ''abcdefghijklmnopqrstuvwxyz'') c of
        None \<Rightarrow> c
      | Some l \<Rightarrow> l)"

definition toLowerCase :: "string \<Rightarrow> string" where
  "toLowerCase s = map lowerChar s"

text \<open>\<^verbatim>\<open>replace(/\*\*/g, '')\<close>: every pair of asterisks, scanned from the left, is removed.\<close>

fun removeBold :: "string \<Rightarrow> string" where
  "removeBold (a # b # cs) =
     (if a = CHR ''*'' \<and> b = CHR ''*'' then removeBold cs else a # removeBold (b # cs))"
| "removeBold cs = cs"

text \<open>
  \<^verbatim>\<open>replace(/<[^>]+>/g, '')\<close>: at a \<^verbatim>\<open><\<close> that is followed by at least one character other
  than \<^verbatim>\<open>>\<close> and then by a \<^verbatim>\<open>>\<close>, everything up to that \<^verbatim>\<open>>\<close> is removed and the scan
  goes on after it.
\<close>

function stripTags :: "string \<Rightarrow> string" where
  "stripTags [] = []"
| "stripTags (c # cs) =
     (if c = CHR ''<'' \<and> takeWhile (\<lambda>x. x \<noteq> CHR ''>'') cs \<noteq> []
         \<and> dropWhile (\<lambda>x. x \<noteq> CHR ''>'') cs \<noteq> []
      then stripTags (tl (dropWhile (\<lambda>x. x \<noteq> CHR ''>'') cs))
      else c # stripTags cs)"
  by pat_completeness auto
termination
proof (relation "measure length")
  fix c :: char and cs :: string
  have "length (tl (dropWhile (\<lambda>x. x \<noteq> CHR ''>'') cs)) \<le> length cs"
    using length_dropWhile_le [of "\<lambda>x. x \<noteq> CHR ''>''" cs] by simp
  then show "(tl (dropWhile (\<lambda>x. x \<noteq> CHR ''>'') cs), c # cs) \<in> measure length"
    by simp
qed simp_all

subsection \<open>The buy box\<close>

text \<open>
  \<^verbatim>\<open>BuyBoxCriteria\<close> (App.tsx, lines 18-37). The scorer reads nothing of a criterion but its
  weight, a finite number here, so \<open>Criterion\<close> keeps the weight alone; the unweighted
  fields (the expertise list and the four texts) appear only as keys.
\<close>

record Criterion =
  weight :: rat

record BuyBoxCriteria =
  geography :: Criterion
  industryType :: Criterion
  minSde :: Criterion
  maxSde :: Criterion
  customerConcentration :: Criterion
  minRecurringRevenue :: Criterion
  growthLevers :: Criterion
  industryTrends :: Criterion
  sellerRole :: Criterion
  teamStrength :: Criterion
  businessModel :: Criterion
  systemMessiness :: Criterion
  myPrimaryRole :: Criterion

datatype BuyBoxKey =
  K_geography | K_industryType | K_minSde | K_maxSde | K_customerConcentration
  | K_minRecurringRevenue | K_growthLevers | K_industryTrends | K_industryExpertise
  | K_sellerRole | K_teamStrength | K_businessModel | K_systemMessiness | K_myPrimaryRole
  | K_desiredCulture | K_desiredCultureRationale | K_personalGoal | K_personalGoalRationale

text \<open>The keys in the order \<^verbatim>\<open>for (const key in buyBox)\<close> visits them.\<close>

definition buyBoxKeys :: "BuyBoxKey list" where
  "buyBoxKeys =
     [K_geography, K_industryType, K_minSde, K_maxSde, K_customerConcentration,
      K_minRecurringRevenue, K_growthLevers, K_industryTrends, K_industryExpertise,
      K_sellerRole, K_teamStrength, K_businessModel, K_systemMessiness, K_myPrimaryRole,
      K_desiredCulture, K_desiredCultureRationale, K_personalGoal, K_personalGoalRationale]"

text \<open>
  \<^verbatim>\<open>buyBox[key]\<close> followed by the test that it is an object, not an array, with a numeric
  \<^verbatim>\<open>weight\<close>: the weight, or \<open>None\<close> for the expertise list and the texts.
\<close>

fun weightOf :: "BuyBoxCriteria \<Rightarrow> BuyBoxKey \<Rightarrow> rat option" where
  "weightOf buyBox K_geography = Some (weight (geography buyBox))"
| "weightOf buyBox K_industryType = Some (weight (industryType buyBox))"
| "weightOf buyBox K_minSde = Some (weight (minSde buyBox))"
| "weightOf buyBox K_maxSde = Some (weight (maxSde buyBox))"
| "weightOf buyBox K_customerConcentration = Some (weight (customerConcentration buyBox))"
| "weightOf buyBox K_minRecurringRevenue = Some (weight (minRecurringRevenue buyBox))"
| "weightOf buyBox K_growthLevers = Some (weight (growthLevers buyBox))"
| "weightOf buyBox K_industryTrends = Some (weight (industryTrends buyBox))"
| "weightOf buyBox K_sellerRole = Some (weight (sellerRole buyBox))"
| "weightOf buyBox K_teamStrength = Some (weight (teamStrength buyBox))"
| "weightOf buyBox K_businessModel = Some (weight (businessModel buyBox))"
| "weightOf buyBox K_systemMessiness = Some (weight (systemMessiness buyBox))"
| "weightOf buyBox K_myPrimaryRole = Some (weight (myPrimaryRole buyBox))"
| "weightOf buyBox _ = None"

text \<open>
  \<^verbatim>\<open>criteriaNameToKeyMap\<close>, the same table in both files. \<^verbatim>\<open>Culture\<close> maps to \<^verbatim>\<open>null\<close>, which
  the scorer treats as a missing name.
\<close>

definition criteriaNameToKeyMap :: "string \<Rightarrow> BuyBoxKey option" where
  "criteriaNameToKeyMap =
     map_of
       [(''Geography'', K_geography),
        (''Industry'', K_industryType),
        (''Financials (SDE)'', K_minSde),
        (''Revenue Quality'', K_minRecurringRevenue),
        (''Risk (Concentration)'', K_customerConcentration),
        (''Growth Levers'', K_growthLevers),
        (''Industry Trends'', K_industryTrends),
        (''Seller Role'', K_sellerRole),
        (''Team Strength'', K_teamStrength),
        (''Business Model'', K_businessModel),
        (''Systems'', K_systemMessiness),
        (''My Role'', K_myPrimaryRole),
        (''Industry Expertise'', K_industryExpertise)]"

subsection \<open>The scorer\<close>

text \<open>The sum of the weights, less the weight of \<^verbatim>\<open>maxSde\<close> when both SDE weights are positive.\<close>

definition totalPossibleScore :: "BuyBoxCriteria \<Rightarrow> rat" where
  "totalPossibleScore buyBox =
     (let total = foldl (\<lambda>total key. case weightOf buyBox key of
                                         None \<Rightarrow> total
                                       | Some w \<Rightarrow> total + w) 0 buyBoxKeys
      in if 0 < weight (minSde buyBox) \<and> 0 < weight (maxSde buyBox)
         then total - weight (maxSde buyBox) else total)"

text \<open>
  The body of \<^verbatim>\<open>rows.forEach\<close> in the sourcing engine (part_003, lines 274-295): the new
  value of \<^verbatim>\<open>achievedScore\<close> after one row.
\<close>

definition scoreRow_sourcing :: "BuyBoxCriteria \<Rightarrow> rat \<Rightarrow> string \<Rightarrow> rat" where
  "scoreRow_sourcing buyBox achievedScore row =
     (let columns = map trim (split CHR ''|'' row) in
      if 4 \<le> length columns then
        (let criteriaNameWithWeight = columns ! 1;
             criteriaName = trim (firstPiece '' (Weight:'' criteriaNameWithWeight);
             fit = toLowerCase (columns ! 3)
         in case criteriaNameToKeyMap criteriaName of
              None \<Rightarrow> achievedScore
            | Some buyBoxKey \<Rightarrow>
                (case weightOf buyBox buyBoxKey of
                   None \<Rightarrow> achievedScore
                 | Some w \<Rightarrow>
                     if fit = ''yes'' then achievedScore + w
                     else if fit = ''?'' then achievedScore + w * (3 / 10)
                     else achievedScore))
      else achievedScore)"

text \<open>
  The same body in the dashboard (CentralDashboard.tsx, lines 298-319), which also removes
  the bold markup of the name and the tags of the Fit cell.
\<close>

definition scoreRow_dashboard :: "BuyBoxCriteria \<Rightarrow> rat \<Rightarrow> string \<Rightarrow> rat" where
  "scoreRow_dashboard buyBox achievedScore row =
     (let columns = map trim (split CHR ''|'' row) in
      if 4 \<le> length columns then
        (let criteriaNameWithWeight = columns ! 1;
             criteriaName = removeBold (trim (firstPiece '' (Weight:'' criteriaNameWithWeight));
             fit = stripTags (toLowerCase (columns ! 3))
         in case criteriaNameToKeyMap criteriaName of
              None \<Rightarrow> achievedScore
            | Some buyBoxKey \<Rightarrow>
                (case weightOf buyBox buyBoxKey of
                   None \<Rightarrow> achievedScore
                 | Some w \<Rightarrow>
                     if fit = ''yes'' then achievedScore + w
                     else if fit = ''?'' then achievedScore + w * (3 / 10)
                     else achievedScore))
      else achievedScore)"

text \<open>The rows after the header and the separator: \<^verbatim>\<open>scorecard.split('\n').slice(2)\<close>.\<close>

definition dataRows :: "string \<Rightarrow> string list" where
  "dataRows scorecard = drop 2 (split (CHR 0x0A) scorecard)"

text \<open>
  \<^verbatim>\<open>calculateOverallFitScore\<close> of the sourcing engine (part_003, lines 251-298) and of the
  dashboard (CentralDashboard.tsx, lines 277-321). \<open>None\<close> is \<^verbatim>\<open>null\<close>.
\<close>

definition calculateOverallFitScore_sourcing :: "string \<Rightarrow> BuyBoxCriteria \<Rightarrow> int option" where
  "calculateOverallFitScore_sourcing scorecard buyBox =
     (if scorecard = [] then None
      else if totalPossibleScore buyBox = 0 then Some 50
      else Some (Math_round
                   (foldl (scoreRow_sourcing buyBox) 0 (dataRows scorecard)
                      / totalPossibleScore buyBox * 100)))"

definition calculateOverallFitScore_dashboard :: "string \<Rightarrow> BuyBoxCriteria \<Rightarrow> int option" where
  "calculateOverallFitScore_dashboard scorecard buyBox =
     (if scorecard = [] then None
      else if totalPossibleScore buyBox = 0 then Some 50
      else Some (Math_round
                   (foldl (scoreRow_dashboard buyBox) 0 (dataRows scorecard)
                      / totalPossibleScore buyBox * 100)))"

section \<open>The formulas of the specification\<close>











section \<open>Example inputs\<close>

text \<open>A period with every line blank, and the hub's data around it.\<close>

definition blankPeriod :: FinancialPeriod where
  "blankPeriod =
     \<lparr> period_id = ''p1'', periodName = ''2023'', revenue = [], cogs = [],
       operatingExpenses = [], depreciation = [], amortization = [], interestExpense = [],
       taxes = [], cash = [], accountsReceivable = [], inventory = [],
       otherCurrentAssets = [], longTermAssets = [], accountsPayable = [],
       shortTermDebt = [], otherCurrentLiabilities = [], longTermDebt = [],
       shareholderEquity = [] \<rparr>"

definition examplePeriod :: FinancialPeriod where
  "examplePeriod =
     blankPeriod \<lparr> revenue := ''1,000'', cogs := ''400'', operatingExpenses := ''300'',
                   accountsReceivable := ''50'', accountsPayable := ''20'' \<rparr>"

definition exampleData :: FinancialAnalysisData where
  "exampleData =
     \<lparr> companyName = ''Example Co'', periods = [examplePeriod],
       addBacks = [\<lparr> addback_id = ''a1'', description = ''travel'', amount = ''25'',
                     category = Personal \<rparr>,
                   \<lparr> addback_id = ''a2'', description = ''lawsuit'', amount = ''75'',
                     category = OneTime \<rparr>],
       ytdMonths = ''9'', ytdActuals = examplePeriod, ownerCompAddBack = ''120'',
       financialNotes = [], addBackNotes = [] \<rparr>"

text \<open>The default inputs of the valuation calculator, with a senior loan at 0% over 10 years.\<close>

definition exampleDeal :: ValuationInputs where
  "exampleDeal =
     \<lparr> sde = ''500,000'', askingMultiple = ''3.0'', ownerSalary = ''120,000'',
       closingCosts = ''40,000'', liquidityMonths = ''3'', loanAmount = ''1,000,000'',
       sbaTerm = ''10'', sbaRate = ''0'', amortizingSellerNoteAmount = ''150,000'',
       standbySellerNoteAmount = ''150,000'', forgivableSellerNoteAmount = ''150,000'',
       amortizingNoteTerm = ''5'', amortizingNoteRate = ''6.0'',
       amortizingNoteType = interestOnly, stressTestPercent = ''10'',
       standbyNoteRate = ''6.0'', standbyNoteTerm = ''10'', forgivenessPeriod = ''2'',
       forgivenessCondition = [] \<rparr>"


text \<open>A buy box that weighs nothing, and one that weighs geography 2 and industry 3.\<close>

definition zeroBuyBox :: BuyBoxCriteria where
  "zeroBuyBox =
     \<lparr> geography = \<lparr>weight = 0\<rparr>, industryType = \<lparr>weight = 0\<rparr>, minSde = \<lparr>weight = 0\<rparr>,
       maxSde = \<lparr>weight = 0\<rparr>, customerConcentration = \<lparr>weight = 0\<rparr>,
       minRecurringRevenue = \<lparr>weight = 0\<rparr>, growthLevers = \<lparr>weight = 0\<rparr>,
       industryTrends = \<lparr>weight = 0\<rparr>, sellerRole = \<lparr>weight = 0\<rparr>,
       teamStrength = \<lparr>weight = 0\<rparr>, businessModel = \<lparr>weight = 0\<rparr>,
       systemMessiness = \<lparr>weight = 0\<rparr>, myPrimaryRole = \<lparr>weight = 0\<rparr> \<rparr>"

definition exampleBuyBox :: BuyBoxCriteria where
  "exampleBuyBox = zeroBuyBox \<lparr> geography := \<lparr>weight = 2\<rparr>, industryType := \<lparr>weight = 3\<rparr> \<rparr>"

text \<open>A scorecard of two data rows, with the Fit cell of the first row as a parameter.\<close>

definition exampleScorecard :: "string \<Rightarrow> string" where
  "exampleScorecard fit =
     ''| Criteria | Status | Fit | Rationale |'' @ [CHR 0x0A]
     @ ''|---|---|---|---|'' @ [CHR 0x0A]
     @ ''| Geography (Weight: 2) | Houston | '' @ fit @ '' | near |'' @ [CHR 0x0A]
     @ ''| Industry (Weight: 3) | SaaS | ? | unclear |''"

section \<open>Properties of the numeric parsers\<close>


























section \<open>Properties of the deal-structure calculator\<close>










text \<open>
  Claim C10. Two input records that differ only in the standby and the forgivable note
  amounts have, in either mode and with or without the stress test, the same senior-loan
  debt service, seller-note debt service, total debt service, DSCR and net cash flow to
  the owner.
\<close>

theorem standby_and_forgivable_notes_carry_no_debt_service:
  "sbaDebtService
     (calculations_valuation
        (inputs \<lparr> standbySellerNoteAmount := standby, forgivableSellerNoteAmount := forgivable \<rparr>)
        isAdvancedView isStressed)
     = sbaDebtService (calculations_valuation inputs isAdvancedView isStressed)
   \<and> sellerNoteDebtService
       (calculations_valuation
          (inputs \<lparr> standbySellerNoteAmount := standby, forgivableSellerNoteAmount := forgivable \<rparr>)
          isAdvancedView isStressed)
       = sellerNoteDebtService (calculations_valuation inputs isAdvancedView isStressed)
   \<and> totalDebtService
       (calculations_valuation
          (inputs \<lparr> standbySellerNoteAmount := standby, forgivableSellerNoteAmount := forgivable \<rparr>)
          isAdvancedView isStressed)
       = totalDebtService (calculations_valuation inputs isAdvancedView isStressed)
   \<and> dscr
       (calculations_valuation
          (inputs \<lparr> standbySellerNoteAmount := standby, forgivableSellerNoteAmount := forgivable \<rparr>)
          isAdvancedView isStressed)
       = dscr (calculations_valuation inputs isAdvancedView isStressed)
   \<and> netCashFlowToOwner
       (calculations_valuation
          (inputs \<lparr> standbySellerNoteAmount := standby, forgivableSellerNoteAmount := forgivable \<rparr>)
          isAdvancedView isStressed)
       = netCashFlowToOwner (calculations_valuation inputs isAdvancedView isStressed)"
  by (simp add: calculations_valuation_def Let_def)

text \<open>
  The theorem at the example deal in advanced mode, with the standby note raised to
  400,000 and the forgivable note dropped: the debt service stays at 109,000 and the DSCR
  at 380/109, while the buyer's equity moves from 50,000 to -50,000.
\<close>

theorem standby_and_forgivable_notes_witness:
  "totalDebtService
     (calculations_valuation
        (exampleDeal \<lparr> standbySellerNoteAmount := ''400,000'', forgivableSellerNoteAmount := [] \<rparr>)
        True False) = Num 109000
   \<and> dscr
       (calculations_valuation
          (exampleDeal \<lparr> standbySellerNoteAmount := ''400,000'', forgivableSellerNoteAmount := [] \<rparr>)
          True False) = Num (380 / 109)
   \<and> buyerEquity (calculations_valuation exampleDeal True False) = Num 50000
   \<and> buyerEquity
       (calculations_valuation
          (exampleDeal \<lparr> standbySellerNoteAmount := ''400,000'', forgivableSellerNoteAmount := [] \<rparr>)
          True False) = Num (- 50000)"
proof -
  have base: "totalDebtService (calculations_valuation exampleDeal True False) = Num 109000"
    "dscr (calculations_valuation exampleDeal True False) = Num (380 / 109)"
    by code_simp+
  have eq: "buyerEquity (calculations_valuation exampleDeal True False) = Num 50000"
    "buyerEquity
       (calculations_valuation
          (exampleDeal \<lparr> standbySellerNoteAmount := ''400,000'', forgivableSellerNoteAmount := [] \<rparr>)
          True False) = Num (- 50000)"
    by code_simp+
  from standby_and_forgivable_notes_carry_no_debt_service
         [where inputs = exampleDeal and standby = "''400,000''" and forgivable = "[]"
            and isAdvancedView = True and isStressed = False] base eq
  show ?thesis by simp
qed


section \<open>Properties of the financial normalization\<close>







text \<open>
  Claim C9, as amended. A months count that parses to 0, or does not parse, is treated as
  1, and the annualization factor is then 12. A negative count is kept, and the factor is
  then 1: the period is not annualized. In every case the factor is a finite number from 1
  to 12, so nothing is divided by zero. In the annualized period the revenue, the cost of
  goods sold and the operating expenses are multiplied by the factor; depreciation,
  amortization, interest and taxes are not, and neither are the balance-sheet lines: net
  working capital and total assets are those of the period as entered.
\<close>

theorem ytd_annualization:
  "(parseInt (ytdMonths data) 0 = None \<or> parseInt (ytdMonths data) 0 = Some 0 \<longrightarrow>
      ytdMonthsNum data = 1 \<and> annualizationFactor data = Num 12)
   \<and> (parseInt (ytdMonths data) 0 = Some n \<and> n < 0 \<longrightarrow>
        ytdMonthsNum data = n \<and> annualizationFactor data = Num 1)
   \<and> (\<exists>q. annualizationFactor data = Num q \<and> 1 \<le> q \<and> q \<le> 12)
   \<and> m_revenue (calculateMetrics data p prevPeriod True)
       = parseNum_hub (revenue p) * annualizationFactor data
   \<and> m_grossProfit (calculateMetrics data p prevPeriod True)
       = parseNum_hub (revenue p) * annualizationFactor data
         - parseNum_hub (cogs p) * annualizationFactor data
   \<and> m_ebitda (calculateMetrics data p prevPeriod True)
       = m_grossProfit (calculateMetrics data p prevPeriod True)
         - parseNum_hub (operatingExpenses p) * annualizationFactor data
   \<and> m_netIncome (calculateMetrics data p prevPeriod True)
       = m_ebitda (calculateMetrics data p prevPeriod True) - parseNum_hub (depreciation p)
         - parseNum_hub (amortization p) - parseNum_hub (interestExpense p)
         - parseNum_hub (taxes p)
   \<and> m_netWorkingCapital (calculateMetrics data p prevPeriod True)
       = m_netWorkingCapital (calculateMetrics data p prevPeriod False)
   \<and> m_totalAssets (calculateMetrics data p prevPeriod True)
       = m_totalAssets (calculateMetrics data p prevPeriod False)"
proof -
  have zero: "ytdMonthsNum data = 1 \<and> annualizationFactor data = Num 12"
    if "parseInt (ytdMonths data) 0 = None \<or> parseInt (ytdMonths data) 0 = Some 0"
    using that by (auto simp: ytdMonthsNum_def annualizationFactor_def)
  have neg: "ytdMonthsNum data = n \<and> annualizationFactor data = Num 1"
    if "parseInt (ytdMonths data) 0 = Some n \<and> n < 0"
    using that by (auto simp: ytdMonthsNum_def annualizationFactor_def)
  have range: "\<exists>q. annualizationFactor data = Num q \<and> 1 \<le> q \<and> q \<le> 12"
  proof (cases "0 < ytdMonthsNum data \<and> ytdMonthsNum data < 12")
    case True
    let ?k = "of_int (ytdMonthsNum data) :: rat"
    have k: "1 \<le> ?k" "?k \<le> 12" using True by simp_all
    then have "1 \<le> 12 / ?k" "12 / ?k \<le> 12"
      by (simp_all add: le_divide_eq divide_le_eq)
    moreover have "annualizationFactor data = Num (12 / ?k)"
      using True k by (simp add: annualizationFactor_def)
    ultimately show ?thesis by blast
  next
    case False
    then have "annualizationFactor data = Num 1" by (simp add: annualizationFactor_def)
    then show ?thesis by simp
  qed
  have lines: "m_revenue (calculateMetrics data p prevPeriod True)
        = parseNum_hub (revenue p) * annualizationFactor data"
    "m_grossProfit (calculateMetrics data p prevPeriod True)
        = parseNum_hub (revenue p) * annualizationFactor data
          - parseNum_hub (cogs p) * annualizationFactor data"
    "m_ebitda (calculateMetrics data p prevPeriod True)
        = m_grossProfit (calculateMetrics data p prevPeriod True)
          - parseNum_hub (operatingExpenses p) * annualizationFactor data"
    "m_netIncome (calculateMetrics data p prevPeriod True)
        = m_ebitda (calculateMetrics data p prevPeriod True) - parseNum_hub (depreciation p)
          - parseNum_hub (amortization p) - parseNum_hub (interestExpense p)
          - parseNum_hub (taxes p)"
    "m_netWorkingCapital (calculateMetrics data p prevPeriod True)
        = m_netWorkingCapital (calculateMetrics data p prevPeriod False)"
    "m_totalAssets (calculateMetrics data p prevPeriod True)
        = m_totalAssets (calculateMetrics data p prevPeriod False)"
    by (simp_all add: calculateMetrics_def Let_def)
  from zero neg range lines show ?thesis by blast
qed

text \<open>
  The theorem at the synthetic annualized period of the example company: a count of 0
  gives the factor 12 and an annualized revenue of 12,000 for an entered revenue of 1,000,
  with the net working capital still 30; a count of -3 gives the factor 1.
\<close>

theorem ytd_annualization_witness:
  "annualizationFactor (exampleData \<lparr> ytdMonths := ''0'' \<rparr>) = Num 12
   \<and> m_revenue
       (calculateMetrics (exampleData \<lparr> ytdMonths := ''0'' \<rparr>)
          (ytdAnnualizedPeriod ''2026'' exampleData) None True) = Num 12000
   \<and> m_netWorkingCapital
       (calculateMetrics (exampleData \<lparr> ytdMonths := ''0'' \<rparr>)
          (ytdAnnualizedPeriod ''2026'' exampleData) None True) = Num 30
   \<and> annualizationFactor (exampleData \<lparr> ytdMonths := ''-3'' \<rparr>) = Num 1"
proof -
  let ?d0 = "exampleData \<lparr> ytdMonths := ''0'' \<rparr>"
  let ?d3 = "exampleData \<lparr> ytdMonths := ''-3'' \<rparr>"
  let ?p = "ytdAnnualizedPeriod ''2026'' exampleData"
  have z: "parseInt (ytdMonths ?d0) 0 = Some 0"
    and m: "parseInt (ytdMonths ?d3) 0 = Some (- 3)"
    by code_simp+
  have rev: "parseNum_hub (revenue ?p) = Num 1000"
    and nwc: "m_netWorkingCapital (calculateMetrics ?d0 ?p None False) = Num 30"
    by code_simp+
  note t0 = ytd_annualization [where data = ?d0 and p = ?p and prevPeriod = None and n = 0]
  note t3 = ytd_annualization [where data = ?d3 and p = ?p and prevPeriod = None and n = "- 3"]
  from t0 z have f: "annualizationFactor ?d0 = Num 12"
    by blast
  from t0 have "m_revenue (calculateMetrics ?d0 ?p None True)
      = parseNum_hub (revenue ?p) * annualizationFactor ?d0"
    by blast
  then have r: "m_revenue (calculateMetrics ?d0 ?p None True) = Num 12000"
    by (simp add: rev f)
  from t0 nwc have w: "m_netWorkingCapital (calculateMetrics ?d0 ?p None True) = Num 30"
    by metis
  from t3 m have g: "annualizationFactor ?d3 = Num 1"
    by simp
  from f r w g show ?thesis by blast
qed

text \<open>
  Claim C9 as stated fails for a negative count: \<^verbatim>\<open>-3\<close> parses to -3, which is not
  replaced by 1, and the factor is 1, not 12.
\<close>

theorem ytd_annualization_counterexample:
  "parseInt ''-3'' 0 = Some (- 3)
   \<and> ytdMonthsNum (exampleData \<lparr> ytdMonths := ''-3'' \<rparr>) = - 3
   \<and> annualizationFactor (exampleData \<lparr> ytdMonths := ''-3'' \<rparr>) = Num 1"
  by code_simp


section \<open>Properties of the year-1 projection\<close>







section \<open>Properties of the fit scorer\<close>









text \<open>
  Claim C4 holds in the dashboard and fails in the sourcing engine, which lowers the case
  of the Fit cell but leaves its tags in: a first row marked \<^verbatim>\<open><b>Yes</b>\<close> scores like
  \<^verbatim>\<open>Yes\<close> in the dashboard (58) and like a miss in the sourcing engine (18).
\<close>

theorem fit_cell_tags_stripped_in_dashboard_only:
  "calculateOverallFitScore_dashboard (exampleScorecard ''Yes'') exampleBuyBox = Some 58
   \<and> calculateOverallFitScore_dashboard (exampleScorecard ''<b>Yes</b>'') exampleBuyBox = Some 58
   \<and> calculateOverallFitScore_sourcing (exampleScorecard ''Yes'') exampleBuyBox = Some 58
   \<and> calculateOverallFitScore_sourcing (exampleScorecard ''<b>Yes</b>'') exampleBuyBox = Some 18"
  by code_simp

text \<open>
  Claim C5, as amended. For every scorecard text that is not empty and every buy box in
  which every criterion's weight is 0, both functions return exactly 50, whatever the
  scorecard holds.
\<close>

theorem zero_weights_score_fifty:
  assumes "scorecard \<noteq> []" and "\<forall>key w. weightOf buyBox key = Some w \<longrightarrow> w = 0"
  shows "calculateOverallFitScore_sourcing scorecard buyBox = Some 50
       \<and> calculateOverallFitScore_dashboard scorecard buyBox = Some 50"
proof -
  have z: "w = 0" if "weightOf buyBox key = Some w" for key w
    using assms(2) that by blast
  have "weight (geography buyBox) = 0" "weight (industryType buyBox) = 0"
    "weight (minSde buyBox) = 0" "weight (maxSde buyBox) = 0"
    "weight (customerConcentration buyBox) = 0" "weight (minRecurringRevenue buyBox) = 0"
    "weight (growthLevers buyBox) = 0" "weight (industryTrends buyBox) = 0"
    "weight (sellerRole buyBox) = 0" "weight (teamStrength buyBox) = 0"
    "weight (businessModel buyBox) = 0" "weight (systemMessiness buyBox) = 0"
    "weight (myPrimaryRole buyBox) = 0"
    using z [of K_geography] z [of K_industryType] z [of K_minSde] z [of K_maxSde]
      z [of K_customerConcentration] z [of K_minRecurringRevenue] z [of K_growthLevers]
      z [of K_industryTrends] z [of K_sellerRole] z [of K_teamStrength]
      z [of K_businessModel] z [of K_systemMessiness] z [of K_myPrimaryRole]
    by simp_all
  then have "totalPossibleScore buyBox = 0"
    by (simp add: totalPossibleScore_def buyBoxKeys_def)
  with assms(1) show ?thesis
    by (simp add: calculateOverallFitScore_sourcing_def calculateOverallFitScore_dashboard_def)
qed

text \<open>The theorem at the buy box that weighs nothing, on the example scorecard.\<close>

theorem zero_weights_score_fifty_witness:
  "calculateOverallFitScore_sourcing (exampleScorecard ''Yes'') zeroBuyBox = Some 50
   \<and> calculateOverallFitScore_dashboard (exampleScorecard ''Yes'') zeroBuyBox = Some 50"
proof -
  have ne: "exampleScorecard ''Yes'' \<noteq> []" by (simp add: exampleScorecard_def)
  have zero: "\<forall>key w. weightOf zeroBuyBox key = Some w \<longrightarrow> w = 0"
  proof (intro allI impI)
    fix key w
    assume "weightOf zeroBuyBox key = Some w"
    then show "w = 0" by (cases key) (simp_all add: zeroBuyBox_def)
  qed
  from zero_weights_score_fifty [OF ne zero] show ?thesis .
qed

text \<open>
  Claim C5 as stated fails on the empty scorecard text: the guard \<^verbatim>\<open>if (!scorecard)\<close>
  returns \<^verbatim>\<open>null\<close> before the weights are looked at.
\<close>

theorem zero_weights_score_fifty_counterexample:
  "totalPossibleScore zeroBuyBox = 0
   \<and> calculateOverallFitScore_sourcing [] zeroBuyBox = None
   \<and> calculateOverallFitScore_dashboard [] zeroBuyBox = None"
  by code_simp


end
